theory Spec2Isabelle
  imports Complex_Main "HOL-Library.Word"
begin

unbundle bit_operations_syntax

section \<open>Python values, dictionaries and exceptions\<close>

text \<open>
  The extraction code works on the values that \<^verbatim>\<open>json.loads\<close> produces: \<^verbatim>\<open>None\<close>,
  booleans, integers, floats, strings, lists and dictionaries with string keys. A float
  is modelled by the real number it denotes (no NaN, no infinity, no rounding); a string
  is a list of 8-bit characters; a dictionary is an association list in insertion order
  whose first binding of a key is the effective one.
\<close>

datatype pyval =
    PNone
  | PBool bool
  | PInt int
  | PFloat real
  | PStr string
  | PList "pyval list"
  | PDict "(string \<times> pyval) list"

type_synonym pydict = "(string \<times> pyval) list"

text \<open>
  Exceptions are values. \<open>Exception msg\<close> stands for any other subclass of Python's
  \<^verbatim>\<open>Exception\<close> (a transport error or timeout of the language-model client, for
  instance).
\<close>

datatype exn =
    ValidationError
  | JSONDecodeError
  | TypeError
  | AttributeError
  | KeyError
  | Exception string

text \<open>\<^verbatim>\<open>d.get(k)\<close>, \<^verbatim>\<open>d.get(k, default)\<close>, \<^verbatim>\<open>k in d\<close> and \<^verbatim>\<open>d[k] = v\<close>.\<close>

definition dict_get :: "pydict \<Rightarrow> string \<Rightarrow> pyval" where
  "dict_get d k = (case map_of d k of None \<Rightarrow> PNone | Some v \<Rightarrow> v)"

definition dict_get_default :: "pydict \<Rightarrow> string \<Rightarrow> pyval \<Rightarrow> pyval" where
  "dict_get_default d k dflt = (case map_of d k of None \<Rightarrow> dflt | Some v \<Rightarrow> v)"

definition dict_contains :: "pydict \<Rightarrow> string \<Rightarrow> bool" where
  "dict_contains d k = (map_of d k \<noteq> None)"

fun dict_setitem :: "pydict \<Rightarrow> string \<Rightarrow> pyval \<Rightarrow> pydict" where
  "dict_setitem [] k v = [(k, v)]"
| "dict_setitem ((k', v') # d) k v =
     (if k' = k then (k, v) # d else (k', v') # dict_setitem d k v)"

text \<open>Truth value testing, and \<^verbatim>\<open>a or b\<close>, which yields \<open>a\<close> when \<open>a\<close> is truthy.\<close>

fun truthy :: "pyval \<Rightarrow> bool" where
  "truthy PNone = False"
| "truthy (PBool b) = b"
| "truthy (PInt i) = (i \<noteq> 0)"
| "truthy (PFloat r) = (r \<noteq> 0)"
| "truthy (PStr s) = (s \<noteq> [])"
| "truthy (PList xs) = (xs \<noteq> [])"
| "truthy (PDict kvs) = (kvs \<noteq> [])"

definition py_or :: "pyval \<Rightarrow> pyval \<Rightarrow> pyval" where
  "py_or a b = (if truthy a then a else b)"

text \<open>Lists and dictionaries are unhashable: using one as a dictionary key raises.\<close>

fun hashable :: "pyval \<Rightarrow> bool" where
  "hashable (PList xs) = False"
| "hashable (PDict kvs) = False"
| "hashable v = True"

section \<open>The canonical record: \<^verbatim>\<open>models.py\<close>\<close>

text \<open>
  The three enumerations are string enumerations, and \<^verbatim>\<open>SchemeHeader\<close> is configured
  with \<^verbatim>\<open>use_enum_values=True\<close>: a validated record stores the member's string value.
  Each enumeration is therefore the list of its values, in declaration order.
\<close>

definition SchemeType :: "string list" where
  "SchemeType = [''BUY_SIDE'', ''SELL_SIDE'', ''ONE_OFF'', ''OTHER'']"

definition SchemeSubType :: "string list" where
  "SchemeSubType =
     [''PERIODIC_CLAIM'', ''PDC'', ''PUC_FDC'', ''COUPON'', ''SUPER_COIN'', ''PREXO'',
      ''BANK_OFFER'', ''LIFESTYLE'', ''ONE_OFF'', ''OTHER'']"

definition DiscountType :: "string list" where
  "DiscountType = [''PERCENTAGE'', ''FLAT'', ''SLAB'', ''OTHER'']"

record date =
  year :: nat
  month :: nat
  day :: nat

record SchemeHeader =
  scheme_type :: string
  scheme_sub_type :: string
  scheme_name :: string
  duration_start_date :: "date option"
  duration_end_date :: "date option"
  starting_at :: "date option"
  ending_at :: "date option"
  price_drop_date :: "date option"
  discount_type :: "string option"
  discount_value :: "real option"
  min_order_value :: "real option"
  max_discount_cap :: "real option"
  vendor_name :: "string option"
  category :: "string option"
  remarks :: "string option"
  confidence :: real
  needs_escalation :: bool
  source_file :: "string option"
  extracted_at :: int

subsection \<open>Field validation\<close>

text \<open>
  Constructing a \<^verbatim>\<open>SchemeHeader\<close> validates every keyword argument against the field's
  declared type and bounds, and raises \<^verbatim>\<open>ValidationError\<close> when any field fails. The
  validators below fix what the field declarations fix for JSON-shaped input: \<^verbatim>\<open>None\<close>
  is accepted by an \<^verbatim>\<open>Optional\<close> field only, a string field takes strings, an
  enumeration takes exactly its values, a number is a float, a boolean is a boolean, an
  ISO \<^verbatim>\<open>YYYY-MM-DD\<close> string of a real calendar day is a date, and lists and dictionaries
  are never scalars. Which further inputs the validation library converts (numeric
  strings, booleans as numbers, timestamps as dates, words such as \<^verbatim>\<open>"yes"\<close> as
  booleans) is not fixed by this repository: it is the parameter \<open>lax_rules\<close>, and
  every theorem holds for all such rules.
\<close>

record lax_rules =
  lax_float :: "pyval \<Rightarrow> real option"
  lax_bool :: "pyval \<Rightarrow> bool option"
  lax_date :: "pyval \<Rightarrow> date option"

definition validate_enum :: "string list \<Rightarrow> pyval \<Rightarrow> string option" where
  "validate_enum members v =
     (case v of PStr s \<Rightarrow> (if s \<in> set members then Some s else None) | _ \<Rightarrow> None)"

definition validate_str :: "pyval \<Rightarrow> string option" where
  "validate_str v = (case v of PStr s \<Rightarrow> Some s | _ \<Rightarrow> None)"

definition validate_float :: "lax_rules \<Rightarrow> pyval \<Rightarrow> real option" where
  "validate_float L v =
     (case v of
        PFloat r \<Rightarrow> Some r
      | PInt i \<Rightarrow> Some (of_int i)
      | PNone \<Rightarrow> None
      | PList xs \<Rightarrow> None
      | PDict kvs \<Rightarrow> None
      | _ \<Rightarrow> lax_float L v)"

definition validate_bool :: "lax_rules \<Rightarrow> pyval \<Rightarrow> bool option" where
  "validate_bool L v =
     (case v of
        PBool b \<Rightarrow> Some b
      | PNone \<Rightarrow> None
      | PList xs \<Rightarrow> None
      | PDict kvs \<Rightarrow> None
      | _ \<Rightarrow> lax_bool L v)"

text \<open>Calendar dates in the form \<^verbatim>\<open>YYYY-MM-DD\<close>.\<close>

definition digit_val :: "char \<Rightarrow> nat option" where
  "digit_val c =
     (let n = (of_char c :: nat) in if 48 \<le> n \<and> n \<le> 57 then Some (n - 48) else None)"

fun digits_val :: "nat \<Rightarrow> string \<Rightarrow> nat option" where
  "digits_val acc [] = Some acc"
| "digits_val acc (c # cs) =
     (case digit_val c of None \<Rightarrow> None | Some n \<Rightarrow> digits_val (10 * acc + n) cs)"

definition is_leap :: "nat \<Rightarrow> bool" where
  "is_leap y = ((y mod 4 = 0 \<and> y mod 100 \<noteq> 0) \<or> y mod 400 = 0)"

definition days_in_month :: "nat \<Rightarrow> nat \<Rightarrow> nat" where
  "days_in_month y m =
     (if m = 2 then (if is_leap y then 29 else 28)
      else if m = 4 \<or> m = 6 \<or> m = 9 \<or> m = 11 then 30 else 31)"

definition parse_iso_date :: "string \<Rightarrow> date option" where
  "parse_iso_date s =
     (if length s = 10 \<and> s ! 4 = CHR ''-'' \<and> s ! 7 = CHR ''-'' then
        (case digits_val 0 (take 4 s) of
           None \<Rightarrow> None
         | Some y \<Rightarrow>
            (case digits_val 0 (take 2 (drop 5 s)) of
               None \<Rightarrow> None
             | Some m \<Rightarrow>
                (case digits_val 0 (drop 8 s) of
                   None \<Rightarrow> None
                 | Some d \<Rightarrow>
                    (if 1 \<le> y \<and> 1 \<le> m \<and> m \<le> 12 \<and> 1 \<le> d \<and> d \<le> days_in_month y m
                     then Some \<lparr>year = y, month = m, day = d\<rparr>
                     else None))))
      else None)"

definition validate_date :: "lax_rules \<Rightarrow> pyval \<Rightarrow> date option" where
  "validate_date L v =
     (case v of
        PStr s \<Rightarrow> (case parse_iso_date s of Some d \<Rightarrow> Some d | None \<Rightarrow> lax_date L v)
      | PNone \<Rightarrow> None
      | PList xs \<Rightarrow> None
      | PDict kvs \<Rightarrow> None
      | _ \<Rightarrow> lax_date L v)"

text \<open>\<^verbatim>\<open>Optional[T]\<close>: \<^verbatim>\<open>None\<close> is valid and stays \<^verbatim>\<open>None\<close>; anything else is a \<open>T\<close>.\<close>

definition validate_optional :: "(pyval \<Rightarrow> 'a option) \<Rightarrow> pyval \<Rightarrow> 'a option option" where
  "validate_optional f v =
     (case v of PNone \<Rightarrow> Some None | _ \<Rightarrow> (case f v of None \<Rightarrow> None | Some x \<Rightarrow> Some (Some x)))"

text \<open>The bounds \<^verbatim>\<open>ge=0\<close> of the three amounts, and \<^verbatim>\<open>ge=0.0, le=1.0\<close> of the confidence.\<close>

definition validate_amount :: "lax_rules \<Rightarrow> pyval \<Rightarrow> real option" where
  "validate_amount L v =
     (case validate_float L v of None \<Rightarrow> None | Some r \<Rightarrow> (if 0 \<le> r then Some r else None))"

definition validate_confidence :: "lax_rules \<Rightarrow> pyval \<Rightarrow> real option" where
  "validate_confidence L v =
     (case validate_float L v of
        None \<Rightarrow> None
      | Some r \<Rightarrow> (if 0 \<le> r \<and> r \<le> 1 then Some r else None))"

subsection \<open>Constructing a record\<close>

text \<open>
  Both mappers call \<^verbatim>\<open>SchemeHeader(...)\<close> with the same seventeen keyword arguments;
  \<open>SchemeHeader_args\<close> holds them as passed, before validation. The two remaining
  fields take their defaults: \<^verbatim>\<open>source_file\<close> is \<^verbatim>\<open>None\<close>, and \<^verbatim>\<open>extracted_at\<close> is
  \<^verbatim>\<open>datetime.now()\<close>, the clock reading \<open>now\<close> at the moment of construction.
\<close>

record SchemeHeader_args =
  arg_scheme_type :: pyval
  arg_scheme_sub_type :: pyval
  arg_scheme_name :: pyval
  arg_duration_start_date :: pyval
  arg_duration_end_date :: pyval
  arg_starting_at :: pyval
  arg_ending_at :: pyval
  arg_price_drop_date :: pyval
  arg_discount_type :: pyval
  arg_discount_value :: pyval
  arg_min_order_value :: pyval
  arg_max_discount_cap :: pyval
  arg_vendor_name :: pyval
  arg_category :: pyval
  arg_remarks :: pyval
  arg_confidence :: pyval
  arg_needs_escalation :: pyval

definition field :: "'a option \<Rightarrow> ('a \<Rightarrow> exn + 'b) \<Rightarrow> exn + 'b" where
  "field v k = (case v of None \<Rightarrow> Inl ValidationError | Some x \<Rightarrow> k x)"

definition SchemeHeader_init :: "lax_rules \<Rightarrow> int \<Rightarrow> SchemeHeader_args \<Rightarrow> exn + SchemeHeader" where
  "SchemeHeader_init L now a =
     field (validate_enum SchemeType (arg_scheme_type a)) (\<lambda>v1.
     field (validate_enum SchemeSubType (arg_scheme_sub_type a)) (\<lambda>v2.
     field (validate_str (arg_scheme_name a)) (\<lambda>v3.
     field (validate_optional (validate_date L) (arg_duration_start_date a)) (\<lambda>v4.
     field (validate_optional (validate_date L) (arg_duration_end_date a)) (\<lambda>v5.
     field (validate_optional (validate_date L) (arg_starting_at a)) (\<lambda>v6.
     field (validate_optional (validate_date L) (arg_ending_at a)) (\<lambda>v7.
     field (validate_optional (validate_date L) (arg_price_drop_date a)) (\<lambda>v8.
     field (validate_optional (validate_enum DiscountType) (arg_discount_type a)) (\<lambda>v9.
     field (validate_optional (validate_amount L) (arg_discount_value a)) (\<lambda>v10.
     field (validate_optional (validate_amount L) (arg_min_order_value a)) (\<lambda>v11.
     field (validate_optional (validate_amount L) (arg_max_discount_cap a)) (\<lambda>v12.
     field (validate_optional validate_str (arg_vendor_name a)) (\<lambda>v13.
     field (validate_optional validate_str (arg_category a)) (\<lambda>v14.
     field (validate_optional validate_str (arg_remarks a)) (\<lambda>v15.
     field (validate_confidence L (arg_confidence a)) (\<lambda>v16.
     field (validate_bool L (arg_needs_escalation a)) (\<lambda>v17.
       Inr \<lparr>scheme_type = v1, scheme_sub_type = v2, scheme_name = v3,
            duration_start_date = v4, duration_end_date = v5, starting_at = v6,
            ending_at = v7, price_drop_date = v8, discount_type = v9,
            discount_value = v10, min_order_value = v11, max_discount_cap = v12,
            vendor_name = v13, category = v14, remarks = v15,
            confidence = v16, needs_escalation = v17,
            source_file = None, extracted_at = now\<rparr>)))))))))))))))))"

section \<open>The schema mapper: \<^verbatim>\<open>_map_to_scheme_header\<close>\<close>

text \<open>
  \<^verbatim>\<open>discount_type = data.get("discount_type")\<close>, then
  \<^verbatim>\<open>if discount_type: discount_type = discount_type_map.get(discount_type, "OTHER")\<close>.
  A falsy value (\<^verbatim>\<open>None\<close>, the empty string, zero) is passed on unchanged; a list or a
  dictionary is truthy and unhashable, so the table lookup raises \<^verbatim>\<open>TypeError\<close>; the
  table's keys are strings, so no other value is found in it.
\<close>

definition discount_type_map :: "(string \<times> string) list" where
  "discount_type_map =
     [(''Percentage of MRP'', ''PERCENTAGE''),
      (''Percentage of NLC'', ''PERCENTAGE''),
      (''Absolute'', ''FLAT''),
      (''PERCENTAGE'', ''PERCENTAGE''),
      (''FLAT'', ''FLAT''),
      (''SLAB'', ''SLAB''),
      (''Other'', ''OTHER'')]"

definition modules_discount_type_map :: "(string \<times> string) list" where
  "modules_discount_type_map =
     [(''Percentage of MRP'', ''PERCENTAGE''),
      (''Percentage of NLC'', ''PERCENTAGE''),
      (''Absolute'', ''FLAT''),
      (''Other'', ''OTHER'')]"

definition map_discount_type :: "(string \<times> string) list \<Rightarrow> pyval \<Rightarrow> exn + pyval" where
  "map_discount_type table v =
     (if truthy v then
        (if hashable v then
           Inr (PStr (case v of
                        PStr s \<Rightarrow> (case map_of table s of Some t \<Rightarrow> t | None \<Rightarrow> ''OTHER'')
                      | _ \<Rightarrow> ''OTHER''))
         else Inl TypeError)
      else Inr v)"

text \<open>The mapper of \<^verbatim>\<open>DSPySchemeExtractor\<close> (\<^verbatim>\<open>dspy_pipeline.py\<close>).\<close>

definition pipeline_args :: "pydict \<Rightarrow> pyval \<Rightarrow> SchemeHeader_args" where
  "pipeline_args data dt =
     \<lparr>arg_scheme_type = dict_get_default data ''scheme_type'' (PStr ''OTHER''),
      arg_scheme_sub_type = dict_get_default data ''scheme_sub_type'' (PStr ''OTHER''),
      arg_scheme_name = dict_get_default data ''scheme_name'' (PStr []),
      arg_duration_start_date = dict_get data ''duration_start_date'',
      arg_duration_end_date = dict_get data ''duration_end_date'',
      arg_starting_at = dict_get data ''starting_at'',
      arg_ending_at = dict_get data ''ending_at'',
      arg_price_drop_date = dict_get data ''price_drop_date'',
      arg_discount_type = dt,
      arg_discount_value =
        py_or (dict_get data ''discount_value'') (dict_get data ''global_cap_amount''),
      arg_min_order_value = dict_get data ''min_order_value'',
      arg_max_discount_cap =
        py_or (dict_get data ''max_discount_cap'') (dict_get data ''global_cap_amount''),
      arg_vendor_name = dict_get data ''vendor_name'',
      arg_category = dict_get data ''category'',
      arg_remarks = py_or (dict_get data ''description'') (dict_get data ''remarks''),
      arg_confidence = dict_get_default data ''confidence'' (PFloat 0.5),
      arg_needs_escalation = dict_get_default data ''needs_escalation'' (PBool False)\<rparr>"

definition pipeline_map_to_scheme_header ::
  "lax_rules \<Rightarrow> int \<Rightarrow> pydict \<Rightarrow> exn + SchemeHeader" where
  "pipeline_map_to_scheme_header L now data =
     (case map_discount_type discount_type_map (dict_get data ''discount_type'') of
        Inl e \<Rightarrow> Inl e
      | Inr dt \<Rightarrow> SchemeHeader_init L now (pipeline_args data dt))"

text \<open>The mapper of \<^verbatim>\<open>SchemeExtractor\<close> (\<^verbatim>\<open>dspy_modules.py\<close>).\<close>

definition modules_args :: "pydict \<Rightarrow> pyval \<Rightarrow> SchemeHeader_args" where
  "modules_args data dt =
     \<lparr>arg_scheme_type = dict_get_default data ''scheme_type'' (PStr ''OTHER''),
      arg_scheme_sub_type = dict_get_default data ''scheme_sub_type'' (PStr ''OTHER''),
      arg_scheme_name = dict_get_default data ''scheme_name'' (PStr []),
      arg_duration_start_date = dict_get data ''duration_start_date'',
      arg_duration_end_date = dict_get data ''duration_end_date'',
      arg_starting_at = dict_get data ''starting_at'',
      arg_ending_at = dict_get data ''ending_at'',
      arg_price_drop_date = dict_get data ''price_drop_date'',
      arg_discount_type = dt,
      arg_discount_value = dict_get data ''global_cap_amount'',
      arg_min_order_value = PNone,
      arg_max_discount_cap = dict_get data ''global_cap_amount'',
      arg_vendor_name = PNone,
      arg_category = PNone,
      arg_remarks = dict_get data ''description'',
      arg_confidence = dict_get_default data ''confidence'' (PFloat 0.5),
      arg_needs_escalation = dict_get_default data ''needs_escalation'' (PBool False)\<rparr>"

definition modules_map_to_scheme_header ::
  "lax_rules \<Rightarrow> int \<Rightarrow> pydict \<Rightarrow> exn + SchemeHeader" where
  "modules_map_to_scheme_header L now data =
     (case map_discount_type modules_discount_type_map (dict_get data ''discount_type'') of
        Inl e \<Rightarrow> Inl e
      | Inr dt \<Rightarrow> SchemeHeader_init L now (modules_args data dt))"

section \<open>The output parser\<close>

subsection \<open>Cleaning the completion\<close>

text \<open>
  \<^verbatim>\<open>str.strip()\<close> removes leading and trailing whitespace; among the 8-bit characters
  Python counts these as whitespace: tab to carriage return, the four separators
  \<^verbatim>\<open>\x1c\<close> to \<^verbatim>\<open>\x1f\<close>, the space, \<^verbatim>\<open>\x85\<close> and \<^verbatim>\<open>\xa0\<close>.
\<close>

definition is_space :: "char \<Rightarrow> bool" where
  "is_space c =
     (let n = (of_char c :: nat)
      in (9 \<le> n \<and> n \<le> 13) \<or> (28 \<le> n \<and> n \<le> 32) \<or> n = 133 \<or> n = 160)"

definition strip :: "string \<Rightarrow> string" where
  "strip s = rev (dropWhile is_space (rev (dropWhile is_space s)))"

definition startswith :: "string \<Rightarrow> string \<Rightarrow> bool" where
  "startswith s p = (take (length p) s = p)"

definition endswith :: "string \<Rightarrow> string \<Rightarrow> bool" where
  "endswith s p = (length p \<le> length s \<and> drop (length s - length p) s = p)"

definition clean_json :: "string \<Rightarrow> string" where
  "clean_json response =
     (let c0 = strip response;
          c1 = (if startswith c0 ''```json'' then drop 7 c0 else c0);
          c2 = (if startswith c1 ''```'' then drop 3 c1 else c1);
          c3 = (if endswith c2 ''```'' then take (length c2 - 3) c2 else c2)
      in strip c3)"

subsection \<open>Operations on the parsed value\<close>

text \<open>
  The parser applies \<^verbatim>\<open>"schemes" in data\<close>, \<^verbatim>\<open>data["schemes"]\<close>, a \<^verbatim>\<open>for\<close> loop and
  \<^verbatim>\<open>scheme_data[key] = value\<close> to whatever \<^verbatim>\<open>json.loads\<close> returned. On a dictionary
  they do what the code expects; on other values they test list membership or substring
  containment, iterate keys or characters, or raise \<^verbatim>\<open>TypeError\<close>.
\<close>

fun is_substring :: "string \<Rightarrow> string \<Rightarrow> bool" where
  "is_substring k [] = (k = [])"
| "is_substring k (c # cs) = (startswith (c # cs) k \<or> is_substring k cs)"

fun py_contains :: "pyval \<Rightarrow> string \<Rightarrow> exn + bool" where
  "py_contains (PDict d) k = Inr (dict_contains d k)"
| "py_contains (PList xs) k = Inr (PStr k \<in> set xs)"
| "py_contains (PStr s) k = Inr (is_substring k s)"
| "py_contains v k = Inl TypeError"

fun py_getitem :: "pyval \<Rightarrow> string \<Rightarrow> exn + pyval" where
  "py_getitem (PDict d) k = (case map_of d k of None \<Rightarrow> Inl KeyError | Some v \<Rightarrow> Inr v)"
| "py_getitem v k = Inl TypeError"

fun py_setitem :: "pyval \<Rightarrow> string \<Rightarrow> pyval \<Rightarrow> exn + pyval" where
  "py_setitem (PDict d) k v = Inr (PDict (dict_setitem d k v))"
| "py_setitem x k v = Inl TypeError"

fun py_iter :: "pyval \<Rightarrow> exn + pyval list" where
  "py_iter (PList xs) = Inr xs"
| "py_iter (PDict d) = Inr (map (\<lambda>kv. PStr (fst kv)) d)"
| "py_iter (PStr s) = Inr (map (\<lambda>c. PStr [c]) s)"
| "py_iter v = Inl TypeError"

text \<open>\<^verbatim>\<open>if key not in scheme_data: scheme_data[key] = default\<close>.\<close>

definition set_default :: "pyval \<Rightarrow> string \<Rightarrow> pyval \<Rightarrow> exn + pyval" where
  "set_default x k dflt =
     (case py_contains x k of
        Inl e \<Rightarrow> Inl e
      | Inr present \<Rightarrow> (if present then Inr x else py_setitem x k dflt))"

subsection \<open>\<^verbatim>\<open>DSPySchemeExtractor._parse_schemes_json\<close>\<close>

text \<open>
  The mapper calls \<^verbatim>\<open>data.get\<close>, which only a dictionary has. The body of the loop
  applies the two defaults and maps the entry. The loop keeps the records of the entries
  that validate; \<^verbatim>\<open>ValidationError\<close> skips the entry, any other exception leaves the
  loop. Entry \<open>n\<close> of the list is constructed at the clock reading \<open>clock n\<close>.
\<close>

definition pipeline_map_value :: "lax_rules \<Rightarrow> int \<Rightarrow> pyval \<Rightarrow> exn + SchemeHeader" where
  "pipeline_map_value L now x =
     (case x of PDict d \<Rightarrow> pipeline_map_to_scheme_header L now d | _ \<Rightarrow> Inl AttributeError)"

definition pipeline_scheme ::
  "lax_rules \<Rightarrow> int \<Rightarrow> pyval \<Rightarrow> pyval \<Rightarrow> pyval \<Rightarrow> exn + SchemeHeader" where
  "pipeline_scheme L now default_confidence default_escalation scheme_data =
     (case set_default scheme_data ''confidence'' default_confidence of
        Inl e \<Rightarrow> Inl e
      | Inr x1 \<Rightarrow>
         (case set_default x1 ''needs_escalation'' default_escalation of
            Inl e \<Rightarrow> Inl e
          | Inr x2 \<Rightarrow> pipeline_map_value L now x2))"

fun collect_schemes :: "(nat \<Rightarrow> pyval \<Rightarrow> exn + SchemeHeader) \<Rightarrow> nat \<Rightarrow> pyval list \<Rightarrow> exn + SchemeHeader list" where
  "collect_schemes body n [] = Inr []"
| "collect_schemes body n (x # xs) =
     (case body n x of
        Inl e \<Rightarrow> (if e = ValidationError then collect_schemes body (Suc n) xs else Inl e)
      | Inr r \<Rightarrow>
         (case collect_schemes body (Suc n) xs of Inl e \<Rightarrow> Inl e | Inr rs \<Rightarrow> Inr (r # rs)))"

definition schemes_of_data ::
  "(nat \<Rightarrow> pyval \<Rightarrow> exn + SchemeHeader) \<Rightarrow> pyval \<Rightarrow> exn + SchemeHeader list" where
  "schemes_of_data body data =
     (case py_contains data ''schemes'' of
        Inl e \<Rightarrow> Inl e
      | Inr present \<Rightarrow>
         (if \<not> present then Inr []
          else (case py_getitem data ''schemes'' of
                  Inl e \<Rightarrow> Inl e
                | Inr v \<Rightarrow> (case py_iter v of Inl e \<Rightarrow> Inl e | Inr xs \<Rightarrow> collect_schemes body 0 xs))))"

text \<open>
  The \<^verbatim>\<open>try\<close> block: clean the completion (a value without \<^verbatim>\<open>strip\<close> raises
  \<^verbatim>\<open>AttributeError\<close>), parse it with \<^verbatim>\<open>json.loads\<close> (the parameter \<open>json_loads\<close>,
  \<open>None\<close> when it raises \<^verbatim>\<open>JSONDecodeError\<close>), then collect the schemes.
\<close>

definition parse_try ::
  "(string \<Rightarrow> pyval option) \<Rightarrow> (nat \<Rightarrow> pyval \<Rightarrow> exn + SchemeHeader) \<Rightarrow> pyval \<Rightarrow> exn + SchemeHeader list" where
  "parse_try json_loads body response =
     (case response of
        PStr s \<Rightarrow>
         (case json_loads (clean_json s) of
            None \<Rightarrow> Inl JSONDecodeError
          | Some data \<Rightarrow> schemes_of_data body data)
      | _ \<Rightarrow> Inl AttributeError)"

text \<open>
  Both handlers, \<^verbatim>\<open>except json.JSONDecodeError\<close> and \<^verbatim>\<open>except Exception\<close>, return the
  empty list. The result of the call is \<open>Inr\<close> of the returned list, or \<open>Inl\<close> of an
  exception that leaves the function.
\<close>

definition parse_schemes_json ::
  "(string \<Rightarrow> pyval option) \<Rightarrow> lax_rules \<Rightarrow> (nat \<Rightarrow> int) \<Rightarrow> pyval \<Rightarrow> pyval \<Rightarrow> pyval
     \<Rightarrow> exn + SchemeHeader list" where
  "parse_schemes_json json_loads L clock schemes_json default_confidence default_escalation =
     (case parse_try json_loads
             (\<lambda>n. pipeline_scheme L (clock n) default_confidence default_escalation)
             schemes_json of
        Inl e \<Rightarrow> (if e = JSONDecodeError then Inr [] else Inr [])
      | Inr schemes \<Rightarrow> Inr schemes)"

subsection \<open>\<^verbatim>\<open>SchemeExtractor._parse_response\<close>\<close>

definition modules_map_value :: "lax_rules \<Rightarrow> int \<Rightarrow> pyval \<Rightarrow> exn + SchemeHeader" where
  "modules_map_value L now x =
     (case x of PDict d \<Rightarrow> modules_map_to_scheme_header L now d | _ \<Rightarrow> Inl AttributeError)"

definition parse_response ::
  "(string \<Rightarrow> pyval option) \<Rightarrow> lax_rules \<Rightarrow> (nat \<Rightarrow> int) \<Rightarrow> pyval \<Rightarrow> exn + SchemeHeader list" where
  "parse_response json_loads L clock response =
     (case parse_try json_loads (\<lambda>n. modules_map_value L (clock n)) response of
        Inl e \<Rightarrow> (if e = JSONDecodeError then Inr [] else Inr [])
      | Inr schemes \<Rightarrow> Inr schemes)"

section \<open>The response and the extraction attempt\<close>

subsection \<open>\<^verbatim>\<open>LLMResponse\<close>\<close>

record LLMResponse =
  schemes :: "SchemeHeader list"
  raw_response :: "string option"
  tokens_used :: "int option"
  model_used :: "string option"
  reasoning :: "string option"
  cot_steps :: "pydict list"

text \<open>
  The two properties: \<^verbatim>\<open>any(scheme.needs_escalation for scheme in self.schemes)\<close>, and
  the mean confidence, \<open>0.0\<close> when there is no scheme.
\<close>

definition LLMResponse_needs_escalation :: "LLMResponse \<Rightarrow> bool" where
  "LLMResponse_needs_escalation r = list_ex needs_escalation (schemes r)"

definition LLMResponse_average_confidence :: "LLMResponse \<Rightarrow> real" where
  "LLMResponse_average_confidence r =
     (if schemes r = [] then 0
      else sum_list (map confidence (schemes r)) / real (length (schemes r)))"

text \<open>
  Validation of the constructor's arguments: \<^verbatim>\<open>raw_response\<close> and \<^verbatim>\<open>reasoning\<close> are
  optional strings, \<^verbatim>\<open>tokens_used\<close> is an optional integer with \<^verbatim>\<open>ge=0\<close>, and
  \<^verbatim>\<open>cot_steps\<close> is a list of dictionaries.
\<close>

fun validate_dict_list :: "pyval list \<Rightarrow> pydict list option" where
  "validate_dict_list [] = Some []"
| "validate_dict_list (PDict d # xs) =
     (case validate_dict_list xs of None \<Rightarrow> None | Some ds \<Rightarrow> Some (d # ds))"
| "validate_dict_list (x # xs) = None"

definition validate_cot_steps :: "pyval \<Rightarrow> pydict list option" where
  "validate_cot_steps v = (case v of PList xs \<Rightarrow> validate_dict_list xs | _ \<Rightarrow> None)"

definition validate_tokens :: "int option \<Rightarrow> int option option" where
  "validate_tokens t =
     (case t of None \<Rightarrow> Some None | Some n \<Rightarrow> (if 0 \<le> n then Some (Some n) else None))"

definition LLMResponse_init ::
  "SchemeHeader list \<Rightarrow> pyval \<Rightarrow> int option \<Rightarrow> string \<Rightarrow> pyval \<Rightarrow> pyval \<Rightarrow> exn + LLMResponse" where
  "LLMResponse_init ss raw tokens model reason steps =
     field (validate_optional validate_str raw) (\<lambda>v1.
     field (validate_tokens tokens) (\<lambda>v2.
     field (validate_optional validate_str reason) (\<lambda>v3.
     field (validate_cot_steps steps) (\<lambda>v4.
       Inr \<lparr>schemes = ss, raw_response = v1, tokens_used = v2, model_used = Some model,
            reasoning = v3, cot_steps = v4\<rparr>))))"

subsection \<open>\<^verbatim>\<open>SchemeExtractionCoT.forward\<close>\<close>

text \<open>
  The seven reasoning stages call the language model; what they return is not determined
  by the program. A run of the stages either completes with the outputs of stages 6 and
  7, the joined reasoning and the seven recorded steps, or raises at some stage with the
  steps recorded so far. \<^verbatim>\<open>forward\<close> catches every exception and returns the terminal
  dictionary in that case.
\<close>

record cot_outputs =
  out_schemes_json :: pyval
  out_reasoning :: string
  out_cot_steps :: "pyval list"
  out_confidence_score :: pyval
  out_needs_escalation :: pyval

datatype cot_run = Completed cot_outputs | Raised string "pyval list"

definition forward :: "cot_run \<Rightarrow> pydict" where
  \<open>forward run =
     (case run of
        Completed out \<Rightarrow>
          [(''schemes_json'', out_schemes_json out),
           (''reasoning'', PStr (out_reasoning out)),
           (''cot_steps'', PList (out_cot_steps out)),
           (''confidence_score'', out_confidence_score out),
           (''needs_escalation'', out_needs_escalation out)]
      | Raised msg steps \<Rightarrow>
          [(''schemes_json'', PStr ''{"schemes": []}''),
           (''reasoning'', PStr (''Extraction failed: '' @ msg)),
           (''cot_steps'', PList steps),
           (''confidence_score'', PFloat 0),
           (''needs_escalation'', PBool True)])\<close>

subsection \<open>\<^verbatim>\<open>DSPySchemeExtractor.extract\<close>\<close>

text \<open>
  What \<^verbatim>\<open>extract\<close> takes from outside the program: the JSON parser, the validation
  library's conversions, the clock, the client's model name and token count (reading it
  may raise), and the text \<^verbatim>\<open>str(e)\<close> of an exception.
\<close>

record extractor_env =
  env_json_loads :: "string \<Rightarrow> pyval option"
  env_lax :: lax_rules
  env_clock :: "nat \<Rightarrow> int"
  env_model_name :: string
  env_total_tokens :: "exn + int option"
  env_str :: "exn \<Rightarrow> string"

text \<open>
  The \<^verbatim>\<open>try\<close> block. \<open>call\<close> is the outcome of \<^verbatim>\<open>self.cot_module(...)\<close>: the
  dictionary \<^verbatim>\<open>forward\<close> returned, or an exception raised around it.
\<close>

definition extract_try :: "extractor_env \<Rightarrow> exn + pydict \<Rightarrow> exn + LLMResponse" where
  "extract_try env call =
     (case call of
        Inl e \<Rightarrow> Inl e
      | Inr result \<Rightarrow>
         (case py_getitem (PDict result) ''schemes_json'' of
            Inl e \<Rightarrow> Inl e
          | Inr schemes_json \<Rightarrow>
             (case parse_schemes_json (env_json_loads env) (env_lax env) (env_clock env)
                     schemes_json
                     (dict_get_default result ''confidence_score'' (PFloat 0.5))
                     (dict_get_default result ''needs_escalation'' (PBool False)) of
                Inl e \<Rightarrow> Inl e
              | Inr ss \<Rightarrow>
                 (case env_total_tokens env of
                    Inl e \<Rightarrow> Inl e
                  | Inr tokens \<Rightarrow>
                     LLMResponse_init ss schemes_json tokens (env_model_name env)
                       (dict_get_default result ''reasoning'' (PStr []))
                       (dict_get_default result ''cot_steps'' (PList []))))))"

text \<open>The handler \<^verbatim>\<open>except Exception as e\<close> and the whole method.\<close>

definition extract_failed :: "extractor_env \<Rightarrow> exn \<Rightarrow> LLMResponse" where
  "extract_failed env e =
     \<lparr>schemes = [], raw_response = Some (env_str env e), tokens_used = None,
      model_used = Some (env_model_name env),
      reasoning = Some (''Extraction failed: '' @ env_str env e), cot_steps = []\<rparr>"

definition extractor_extract :: "extractor_env \<Rightarrow> exn + pydict \<Rightarrow> exn + LLMResponse" where
  "extractor_extract env call =
     (case extract_try env call of
        Inl e \<Rightarrow> Inr (extract_failed env e)
      | Inr response \<Rightarrow> Inr response)"

section \<open>The fingerprint: \<^verbatim>\<open>build_scheme_header.py\<close>\<close>

subsection \<open>MD5\<close>

text \<open>
  \<^verbatim>\<open>hashlib.md5(data).hexdigest()\<close>, written out after RFC 1321: the message is padded
  with \<^verbatim>\<open>0x80\<close>, zero bytes up to 56 modulo 64, and its bit length as eight little-endian
  bytes; every 64-byte block updates four 32-bit words in 64 steps; the digest is the
  four words as little-endian bytes, printed as 32 lower-case hexadecimal digits.
\<close>

type_synonym byte = "8 word"
type_synonym md5_state = "32 word \<times> 32 word \<times> 32 word \<times> 32 word"

definition md5_K :: "32 word list" where
  "md5_K =
     [0xd76aa478, 0xe8c7b756, 0x242070db, 0xc1bdceee,
      0xf57c0faf, 0x4787c62a, 0xa8304613, 0xfd469501,
      0x698098d8, 0x8b44f7af, 0xffff5bb1, 0x895cd7be,
      0x6b901122, 0xfd987193, 0xa679438e, 0x49b40821,
      0xf61e2562, 0xc040b340, 0x265e5a51, 0xe9b6c7aa,
      0xd62f105d, 0x02441453, 0xd8a1e681, 0xe7d3fbc8,
      0x21e1cde6, 0xc33707d6, 0xf4d50d87, 0x455a14ed,
      0xa9e3e905, 0xfcefa3f8, 0x676f02d9, 0x8d2a4c8a,
      0xfffa3942, 0x8771f681, 0x6d9d6122, 0xfde5380c,
      0xa4beea44, 0x4bdecfa9, 0xf6bb4b60, 0xbebfbc70,
      0x289b7ec6, 0xeaa127fa, 0xd4ef3085, 0x04881d05,
      0xd9d4d039, 0xe6db99e5, 0x1fa27cf8, 0xc4ac5665,
      0xf4292244, 0x432aff97, 0xab9423a7, 0xfc93a039,
      0x655b59c3, 0x8f0ccc92, 0xffeff47d, 0x85845dd1,
      0x6fa87e4f, 0xfe2ce6e0, 0xa3014314, 0x4e0811a1,
      0xf7537e82, 0xbd3af235, 0x2ad7d2bb, 0xeb86d391]"

definition md5_s :: "nat list" where
  "md5_s =
     [7, 12, 17, 22, 7, 12, 17, 22, 7, 12, 17, 22, 7, 12, 17, 22,
      5, 9, 14, 20, 5, 9, 14, 20, 5, 9, 14, 20, 5, 9, 14, 20,
      4, 11, 16, 23, 4, 11, 16, 23, 4, 11, 16, 23, 4, 11, 16, 23,
      6, 10, 15, 21, 6, 10, 15, 21, 6, 10, 15, 21, 6, 10, 15, 21]"

definition rotl32 :: "32 word \<Rightarrow> nat \<Rightarrow> 32 word" where
  "rotl32 x n = push_bit n x OR drop_bit (32 - n) x"

definition le_bytes :: "nat \<Rightarrow> 'a::len word \<Rightarrow> byte list" where
  "le_bytes k w = map (\<lambda>i. ucast (drop_bit (8 * i) w)) [0..<k]"

definition le_word32 :: "byte list \<Rightarrow> 32 word" where
  "le_word32 bs = foldr (\<lambda>b w. ucast b OR push_bit 8 w) bs 0"

definition md5_pad :: "byte list \<Rightarrow> byte list" where
  "md5_pad bs =
     bs @ [0x80] @ replicate ((64 - (length bs + 9) mod 64) mod 64) 0
        @ le_bytes 8 (word_of_nat (8 * length bs) :: 64 word)"

definition md5_step :: "32 word list \<Rightarrow> nat \<Rightarrow> md5_state \<Rightarrow> md5_state" where
  "md5_step M i st =
     (case st of (a, b, c, d) \<Rightarrow>
        (let f = (if i < 16 then (b AND c) OR (NOT b AND d)
                  else if i < 32 then (d AND b) OR (NOT d AND c)
                  else if i < 48 then b XOR c XOR d
                  else c XOR (b OR NOT d));
             g = (if i < 16 then i
                  else if i < 32 then (5 * i + 1) mod 16
                  else if i < 48 then (3 * i + 5) mod 16
                  else (7 * i) mod 16);
             f' = f + a + md5_K ! i + M ! g
         in (d, b + rotl32 f' (md5_s ! i), b, c)))"

definition md5_block :: "md5_state \<Rightarrow> byte list \<Rightarrow> md5_state" where
  "md5_block st chunk =
     (let M = map (\<lambda>j. le_word32 (take 4 (drop (4 * j) chunk))) [0..<16]
      in case (st, fold (md5_step M) [0..<64] st) of
           ((a0, b0, c0, d0), (a, b, c, d)) \<Rightarrow> (a0 + a, b0 + b, c0 + c, d0 + d))"

definition md5_digest :: "byte list \<Rightarrow> byte list" where
  "md5_digest bs =
     (let padded = md5_pad bs;
          blocks = map (\<lambda>k. take 64 (drop (64 * k) padded)) [0..<length padded div 64]
      in case fold (\<lambda>blk st. md5_block st blk) blocks
                (0x67452301, 0xefcdab89, 0x98badcfe, 0x10325476) of
           (a, b, c, d) \<Rightarrow> le_bytes 4 a @ le_bytes 4 b @ le_bytes 4 c @ le_bytes 4 d)"

definition hex_digit :: "nat \<Rightarrow> char" where
  "hex_digit n = ''0123456789abcdef'' ! (n mod 16)"

definition hex_byte :: "byte \<Rightarrow> string" where
  "hex_byte b = [hex_digit (unat b div 16), hex_digit (unat b mod 16)]"

definition md5_hexdigest :: "byte list \<Rightarrow> string" where
  "md5_hexdigest bs = concat (map hex_byte (md5_digest bs))"

subsection \<open>Formatting and encoding\<close>

text \<open>
  \<^verbatim>\<open>str.encode()\<close> is UTF-8: a character below 128 is one byte, the other 8-bit
  characters are two.
\<close>

definition utf8_char :: "char \<Rightarrow> byte list" where
  "utf8_char c =
     (let n = (of_char c :: nat)
      in if n < 128 then [word_of_nat n]
         else [word_of_nat (192 + n div 64), word_of_nat (128 + n mod 64)])"

definition encode :: "string \<Rightarrow> byte list" where
  "encode s = concat (map utf8_char s)"

text \<open>
  A replacement field of an f-string formats its value with \<^verbatim>\<open>str\<close>: \<^verbatim>\<open>None\<close>,
  \<^verbatim>\<open>True\<close> and \<^verbatim>\<open>False\<close> are printed by name, an integer in decimal, a string as it
  is. How a float, a list or a dictionary prints is the parameter \<open>repr\<close>.
\<close>

fun nat_str :: "nat \<Rightarrow> string" where
  "nat_str n =
     (if n < 10 then [hex_digit n] else nat_str (n div 10) @ [hex_digit (n mod 10)])"

definition int_str :: "int \<Rightarrow> string" where
  "int_str i = (if i < 0 then CHR ''-'' # nat_str (nat (- i)) else nat_str (nat i))"

definition py_str :: "(pyval \<Rightarrow> string) \<Rightarrow> pyval \<Rightarrow> string" where
  "py_str repr v =
     (case v of
        PNone \<Rightarrow> ''None''
      | PBool b \<Rightarrow> (if b then ''True'' else ''False'')
      | PInt i \<Rightarrow> int_str i
      | PStr s \<Rightarrow> s
      | _ \<Rightarrow> repr v)"

subsection \<open>\<^verbatim>\<open>build_scheme_header\<close>\<close>

definition raw_id :: "(pyval \<Rightarrow> string) \<Rightarrow> pydict \<Rightarrow> string" where
  "raw_id repr scheme =
     py_str repr (dict_get scheme ''scheme_name'') @ ''|''
       @ py_str repr (dict_get scheme ''duration_start_date'') @ ''|''
       @ py_str repr (dict_get scheme ''duration_end_date'')"

definition scheme_id :: "(pyval \<Rightarrow> string) \<Rightarrow> pydict \<Rightarrow> string" where
  "scheme_id repr scheme = take 10 (md5_hexdigest (encode (raw_id repr scheme)))"

text \<open>One row of the data frame, as the dictionary the code appends.\<close>

definition scheme_row :: "(pyval \<Rightarrow> string) \<Rightarrow> string \<Rightarrow> pydict \<Rightarrow> pydict" where
  "scheme_row repr source scheme =
     [(''scheme_id'', PStr (scheme_id repr scheme)),
      (''Scheme Type'', dict_get scheme ''scheme_type''),
      (''Sub Type'', dict_get scheme ''scheme_sub_type''),
      (''Scheme Name'', dict_get scheme ''scheme_name''),
      (''Scheme description'', dict_get scheme ''scheme_description''),
      (''Description'', dict_get scheme ''description''),
      (''Scheme Period'', dict_get scheme ''scheme_period''),
      (''Duration_start_date'', dict_get scheme ''duration_start_date''),
      (''Duration_end_date'', dict_get scheme ''duration_end_date''),
      (''DISCOUNT_TYPE'', dict_get scheme ''discount_type''),
      (''GLOBAL_CAP_AMOUNT'', dict_get scheme ''global_cap_amount''),
      (''Minimum of actual discount OR agreed claim amount'',
         dict_get scheme ''min_actual_or_agreed''),
      (''Remove GST from final claim amount'', dict_get scheme ''remove_gst_from_final_claim''),
      (''Over & Above'', dict_get scheme ''over_and_above''),
      (''DISCOUNT_SLAB_TYPE'', dict_get scheme ''discount_slab_type''),
      (''BEST_BET'', dict_get scheme ''best_bet''),
      (''BRAND_SUPPORT_ABSOLUTE'', dict_get scheme ''brand_support_absolute''),
      (''GST Rate'', dict_get scheme ''gst_rate''),
      (''Scheme Document'', PStr source),
      (''FSN File/Config File'', PNone)]"

text \<open>The loop over \<^verbatim>\<open>result["schemes"]\<close>; an entry without \<^verbatim>\<open>get\<close> raises.\<close>

fun scheme_rows :: "(pyval \<Rightarrow> string) \<Rightarrow> string \<Rightarrow> pyval list \<Rightarrow> exn + pydict list" where
  "scheme_rows repr source [] = Inr []"
| "scheme_rows repr source (PDict scheme # xs) =
     (case scheme_rows repr source xs of
        Inl e \<Rightarrow> Inl e
      | Inr rows \<Rightarrow> Inr (scheme_row repr source scheme # rows))"
| "scheme_rows repr source (x # xs) = Inl AttributeError"

definition build_scheme_header ::
  "(pyval \<Rightarrow> string) \<Rightarrow> pydict \<Rightarrow> string \<Rightarrow> exn + pydict list" where
  "build_scheme_header repr result source =
     (case py_getitem (PDict result) ''schemes'' of
        Inl e \<Rightarrow> Inl e
      | Inr v \<Rightarrow>
         (case py_iter v of Inl e \<Rightarrow> Inl e | Inr xs \<Rightarrow> scheme_rows repr source xs))"

text \<open>
  The rules that convert nothing further. Concrete evaluations below use them; the inputs
  evaluated there are strings, numbers, booleans and \<^verbatim>\<open>None\<close> in the form the fields
  declare, which no conversion rule is consulted for.
\<close>

definition no_conversions :: lax_rules where
  "no_conversions =
     \<lparr>lax_float = (\<lambda>v. None), lax_bool = (\<lambda>v. None), lax_date = (\<lambda>v. None)\<rparr>"

text \<open>
  A JSON parser known at one text only: it returns the value \<open>v\<close> for that text and
  takes every other string for invalid JSON. The concrete runs below use it with the value
  that \<^verbatim>\<open>json.loads\<close> returns for the text.
\<close>

definition json_loads_at :: "string \<Rightarrow> pyval \<Rightarrow> string \<Rightarrow> pyval option" where
  "json_loads_at txt v s = (if s = txt then Some v else None)"

section \<open>Notions used in the statements\<close>

text \<open>
  The precedence the specification states for \<^verbatim>\<open>confidence\<close> and \<^verbatim>\<open>needs_escalation\<close>:
  the per-scheme value if the key is present, else the pipeline-level value of the
  result dictionary, else the fixed fallback.
\<close>

definition effective_value :: "pydict \<Rightarrow> string \<Rightarrow> pydict \<Rightarrow> string \<Rightarrow> pyval \<Rightarrow> pyval" where
  "effective_value scheme key result default_key fallback =
     (case map_of scheme key of
        Some v \<Rightarrow> v
      | None \<Rightarrow> (case map_of result default_key of Some v \<Rightarrow> v | None \<Rightarrow> fallback))"

text \<open>
  A parsed value without a top-level \<^verbatim>\<open>schemes\<close> key: a dictionary that lacks the key,
  or a JSON value that is no dictionary at all.
\<close>

definition no_schemes_key :: "pyval \<Rightarrow> bool" where
  "no_schemes_key data = (case data of PDict d \<Rightarrow> \<not> dict_contains d ''schemes'' | _ \<Rightarrow> True)"


section \<open>Properties\<close>

subsection \<open>Record construction\<close>

lemma SchemeHeader_init_InrD:
  assumes "SchemeHeader_init L now a = Inr r"
  shows "validate_enum SchemeType (arg_scheme_type a) = Some (scheme_type r)"
    and "validate_enum SchemeSubType (arg_scheme_sub_type a) = Some (scheme_sub_type r)"
    and "validate_str (arg_scheme_name a) = Some (scheme_name r)"
    and "validate_optional (validate_date L) (arg_duration_start_date a) = Some (duration_start_date r)"
    and "validate_optional (validate_date L) (arg_duration_end_date a) = Some (duration_end_date r)"
    and "validate_optional (validate_date L) (arg_starting_at a) = Some (starting_at r)"
    and "validate_optional (validate_date L) (arg_ending_at a) = Some (ending_at r)"
    and "validate_optional (validate_date L) (arg_price_drop_date a) = Some (price_drop_date r)"
    and "validate_optional (validate_enum DiscountType) (arg_discount_type a) = Some (discount_type r)"
    and "validate_optional (validate_amount L) (arg_discount_value a) = Some (discount_value r)"
    and "validate_optional (validate_amount L) (arg_min_order_value a) = Some (min_order_value r)"
    and "validate_optional (validate_amount L) (arg_max_discount_cap a) = Some (max_discount_cap r)"
    and "validate_optional validate_str (arg_vendor_name a) = Some (vendor_name r)"
    and "validate_optional validate_str (arg_category a) = Some (category r)"
    and "validate_optional validate_str (arg_remarks a) = Some (remarks r)"
    and "validate_confidence L (arg_confidence a) = Some (confidence r)"
    and "validate_bool L (arg_needs_escalation a) = Some (needs_escalation r)"
    and "source_file r = None"
    and "extracted_at r = now"
  using assms by (auto simp: SchemeHeader_init_def field_def split: option.splits)


lemma SchemeHeader_init_clock:
  "SchemeHeader_init L t2 a = map_sum id (\<lambda>r. r\<lparr>extracted_at := t2\<rparr>) (SchemeHeader_init L t1 a)"
  by (simp add: SchemeHeader_init_def field_def split: option.splits)

subsection \<open>The fingerprint\<close>







subsection \<open>The schema mapper\<close>

lemma pipeline_map_InrD:
  assumes "pipeline_map_to_scheme_header L now d = Inr r"
  shows "\<exists>dt. map_discount_type discount_type_map (dict_get d ''discount_type'') = Inr dt
            \<and> SchemeHeader_init L now (pipeline_args d dt) = Inr r"
  using assms by (auto simp: pipeline_map_to_scheme_header_def split: sum.splits)

lemma modules_map_InrD:
  assumes "modules_map_to_scheme_header L now d = Inr r"
  shows "\<exists>dt. map_discount_type modules_discount_type_map (dict_get d ''discount_type'') = Inr dt
            \<and> SchemeHeader_init L now (modules_args d dt) = Inr r"
  using assms by (auto simp: modules_map_to_scheme_header_def split: sum.splits)

lemma mapped_discount_type:
  assumes "map_discount_type table v = Inr dt"
    and "validate_optional (validate_enum DiscountType) dt = Some res"
  shows "res = (case v of
                  PNone \<Rightarrow> None
                | PStr s \<Rightarrow> Some (case map_of table s of Some t \<Rightarrow> t | None \<Rightarrow> ''OTHER'')
                | _ \<Rightarrow> Some ''OTHER'')"
  using assms
  by (cases v)
     (auto simp: map_discount_type_def validate_optional_def validate_enum_def DiscountType_def
           split: if_splits option.splits)

text \<open>
  Claim C2 (amended). Whenever a mapper produces a record from a dictionary, the record's
  \<^verbatim>\<open>discount_type\<close> is: \<^verbatim>\<open>None\<close> when the dictionary's value is null or absent;
  \<^verbatim>\<open>PERCENTAGE\<close> for \<^verbatim>\<open>"Percentage of MRP"\<close> and \<^verbatim>\<open>"Percentage of NLC"\<close>; \<^verbatim>\<open>FLAT\<close> for
  \<^verbatim>\<open>"Absolute"\<close>; in \<^verbatim>\<open>DSPySchemeExtractor\<close> also \<^verbatim>\<open>PERCENTAGE\<close>, \<^verbatim>\<open>FLAT\<close> and \<^verbatim>\<open>SLAB\<close>
  for the strings of the same name; and \<^verbatim>\<open>OTHER\<close> for every other value. The first
  conjunct is the mapper of \<^verbatim>\<open>DSPySchemeExtractor\<close>, the second that of
  \<^verbatim>\<open>SchemeExtractor\<close>.
\<close>

theorem discount_type_lookup:
  "(pipeline_map_to_scheme_header L now d = Inr r \<longrightarrow>
      discount_type r =
        (case dict_get d ''discount_type'' of
           PNone \<Rightarrow> None
         | PStr s \<Rightarrow>
             Some (if s = ''Percentage of MRP'' \<or> s = ''Percentage of NLC'' \<or> s = ''PERCENTAGE''
                   then ''PERCENTAGE''
                   else if s = ''Absolute'' \<or> s = ''FLAT'' then ''FLAT''
                   else if s = ''SLAB'' then ''SLAB'' else ''OTHER'')
         | _ \<Rightarrow> Some ''OTHER''))
   \<and> (modules_map_to_scheme_header L now d = Inr r' \<longrightarrow>
      discount_type r' =
        (case dict_get d ''discount_type'' of
           PNone \<Rightarrow> None
         | PStr s \<Rightarrow>
             Some (if s = ''Percentage of MRP'' \<or> s = ''Percentage of NLC'' then ''PERCENTAGE''
                   else if s = ''Absolute'' then ''FLAT'' else ''OTHER'')
         | _ \<Rightarrow> Some ''OTHER''))"
proof (intro conjI impI)
  assume "pipeline_map_to_scheme_header L now d = Inr r"
  then obtain dt where dt: "map_discount_type discount_type_map (dict_get d ''discount_type'') = Inr dt"
    and init: "SchemeHeader_init L now (pipeline_args d dt) = Inr r"
    using pipeline_map_InrD by blast
  have "validate_optional (validate_enum DiscountType) dt = Some (discount_type r)"
    using SchemeHeader_init_InrD(9) [OF init] by (simp add: pipeline_args_def)
  from mapped_discount_type [OF dt this]
  show "discount_type r =
        (case dict_get d ''discount_type'' of
           PNone \<Rightarrow> None
         | PStr s \<Rightarrow>
             Some (if s = ''Percentage of MRP'' \<or> s = ''Percentage of NLC'' \<or> s = ''PERCENTAGE''
                   then ''PERCENTAGE''
                   else if s = ''Absolute'' \<or> s = ''FLAT'' then ''FLAT''
                   else if s = ''SLAB'' then ''SLAB'' else ''OTHER'')
         | _ \<Rightarrow> Some ''OTHER'')"
    by (simp add: discount_type_map_def split: pyval.splits)
next
  assume "modules_map_to_scheme_header L now d = Inr r'"
  then obtain dt where dt: "map_discount_type modules_discount_type_map (dict_get d ''discount_type'') = Inr dt"
    and init: "SchemeHeader_init L now (modules_args d dt) = Inr r'"
    using modules_map_InrD by blast
  have "validate_optional (validate_enum DiscountType) dt = Some (discount_type r')"
    using SchemeHeader_init_InrD(9) [OF init] by (simp add: modules_args_def)
  from mapped_discount_type [OF dt this]
  show "discount_type r' =
        (case dict_get d ''discount_type'' of
           PNone \<Rightarrow> None
         | PStr s \<Rightarrow>
             Some (if s = ''Percentage of MRP'' \<or> s = ''Percentage of NLC'' then ''PERCENTAGE''
                   else if s = ''Absolute'' then ''FLAT'' else ''OTHER'')
         | _ \<Rightarrow> Some ''OTHER'')"
    by (simp add: modules_discount_type_map_def split: pyval.splits)
qed

theorem discount_type_lookup_witness:
  "(\<exists>r. pipeline_map_to_scheme_header no_conversions 0
            [(''discount_type'', PStr ''Percentage of MRP'')] = Inr r
        \<and> discount_type r = Some ''PERCENTAGE'')
   \<and> (\<exists>r. modules_map_to_scheme_header no_conversions 0
            [(''discount_type'', PStr ''Absolute'')] = Inr r
        \<and> discount_type r = Some ''FLAT'')"
proof -
  let ?d1 = "[(''discount_type'', PStr ''Percentage of MRP'')]"
  let ?d2 = "[(''discount_type'', PStr ''Absolute'')]"
  have "\<not> isl (pipeline_map_to_scheme_header no_conversions 0 ?d1)"
    by code_simp
  then obtain r1 where r1: "pipeline_map_to_scheme_header no_conversions 0 ?d1 = Inr r1"
    by (cases "pipeline_map_to_scheme_header no_conversions 0 ?d1") auto
  have "\<not> isl (modules_map_to_scheme_header no_conversions 0 ?d2)"
    by code_simp
  then obtain r2 where r2: "modules_map_to_scheme_header no_conversions 0 ?d2 = Inr r2"
    by (cases "modules_map_to_scheme_header no_conversions 0 ?d2") auto
  have "discount_type r1 = Some ''PERCENTAGE''"
    using discount_type_lookup [of no_conversions 0 ?d1 r1] r1 by (simp add: dict_get_def)
  moreover have "discount_type r2 = Some ''FLAT''"
    using discount_type_lookup [of no_conversions 0 ?d2 _ r2] r2 by (simp add: dict_get_def)
  ultimately show ?thesis using r1 r2 by blast
qed

text \<open>
  The claim as stated fails in \<^verbatim>\<open>DSPySchemeExtractor\<close>: \<^verbatim>\<open>"SLAB"\<close> is none of the three
  strings it names, and is mapped to \<^verbatim>\<open>SLAB\<close>, not to \<^verbatim>\<open>OTHER\<close>.
\<close>

theorem discount_type_slab_counterexample:
  "map_sum id discount_type
     (pipeline_map_to_scheme_header no_conversions 0 [(''discount_type'', PStr ''SLAB'')])
   = Inr (Some ''SLAB'')"
  by code_simp

text \<open>
  The empty string is falsy: it skips the table, and validation then rejects it, so no
  record is produced.
\<close>

lemma empty_discount_type_rejected:
  "pipeline_map_to_scheme_header L now [(''discount_type'', PStr [])] = Inl ValidationError"
  by (simp add: pipeline_map_to_scheme_header_def map_discount_type_def dict_get_def
        dict_get_default_def pipeline_args_def SchemeHeader_init_def field_def validate_enum_def
        validate_str_def validate_optional_def SchemeType_def SchemeSubType_def DiscountType_def)

text \<open>
  Claim C7 (amended). Each of the four date fields of a mapped record is the validated
  value of the dictionary's key of the same name; nothing links \<^verbatim>\<open>starting_at\<close> to
  \<^verbatim>\<open>duration_start_date\<close> or \<^verbatim>\<open>ending_at\<close> to \<^verbatim>\<open>duration_end_date\<close>. The two pairs are
  equal in the record when the dictionary holds equal values under both keys.
\<close>

theorem date_fields_independent:
  assumes "pipeline_map_to_scheme_header L now d = Inr r"
  shows "validate_optional (validate_date L) (dict_get d ''duration_start_date'') = Some (duration_start_date r)
       \<and> validate_optional (validate_date L) (dict_get d ''starting_at'') = Some (starting_at r)
       \<and> validate_optional (validate_date L) (dict_get d ''duration_end_date'') = Some (duration_end_date r)
       \<and> validate_optional (validate_date L) (dict_get d ''ending_at'') = Some (ending_at r)
       \<and> (dict_get d ''starting_at'' = dict_get d ''duration_start_date''
            \<longrightarrow> starting_at r = duration_start_date r)
       \<and> (dict_get d ''ending_at'' = dict_get d ''duration_end_date''
            \<longrightarrow> ending_at r = duration_end_date r)"
proof -
  obtain dt where init: "SchemeHeader_init L now (pipeline_args d dt) = Inr r"
    using pipeline_map_InrD [OF assms] by blast
  have a: "validate_optional (validate_date L) (dict_get d ''duration_start_date'') = Some (duration_start_date r)"
    using SchemeHeader_init_InrD(4) [OF init] by (simp add: pipeline_args_def)
  have b: "validate_optional (validate_date L) (dict_get d ''starting_at'') = Some (starting_at r)"
    using SchemeHeader_init_InrD(6) [OF init] by (simp add: pipeline_args_def)
  have c: "validate_optional (validate_date L) (dict_get d ''duration_end_date'') = Some (duration_end_date r)"
    using SchemeHeader_init_InrD(5) [OF init] by (simp add: pipeline_args_def)
  have e: "validate_optional (validate_date L) (dict_get d ''ending_at'') = Some (ending_at r)"
    using SchemeHeader_init_InrD(7) [OF init] by (simp add: pipeline_args_def)
  from a b c e show ?thesis by auto
qed

theorem date_fields_independent_witness:
  "\<exists>r. pipeline_map_to_scheme_header no_conversions 0
          [(''duration_start_date'', PStr ''2024-01-01''), (''starting_at'', PStr ''2024-01-01''),
           (''duration_end_date'', PStr ''2024-03-31''), (''ending_at'', PStr ''2024-03-31'')] = Inr r
     \<and> starting_at r = duration_start_date r \<and> ending_at r = duration_end_date r"
proof -
  let ?d = "[(''duration_start_date'', PStr ''2024-01-01''), (''starting_at'', PStr ''2024-01-01''),
           (''duration_end_date'', PStr ''2024-03-31''), (''ending_at'', PStr ''2024-03-31'')]"
  have "\<not> isl (pipeline_map_to_scheme_header no_conversions 0 ?d)"
    by code_simp
  then obtain r where r: "pipeline_map_to_scheme_header no_conversions 0 ?d = Inr r"
    by (cases "pipeline_map_to_scheme_header no_conversions 0 ?d") auto
  have "starting_at r = duration_start_date r \<and> ending_at r = duration_end_date r"
    using date_fields_independent [OF r] by (simp add: dict_get_def)
  with r show ?thesis by blast
qed

text \<open>
  The claim as stated fails: all four keys are present, and the record keeps
  \<^verbatim>\<open>starting_at = 2024-02-01\<close> beside \<^verbatim>\<open>duration_start_date = 2024-01-01\<close>, and
  \<^verbatim>\<open>ending_at = 2024-03-15\<close> beside \<^verbatim>\<open>duration_end_date = 2024-03-31\<close>.
\<close>

theorem date_fields_not_aliased_counterexample:
  "map_sum id (\<lambda>r. (duration_start_date r, starting_at r, duration_end_date r, ending_at r))
     (pipeline_map_to_scheme_header no_conversions 0
        [(''duration_start_date'', PStr ''2024-01-01''), (''starting_at'', PStr ''2024-02-01''),
         (''duration_end_date'', PStr ''2024-03-31''), (''ending_at'', PStr ''2024-03-15'')])
   = Inr (Some \<lparr>year = 2024, month = 1, day = 1\<rparr>, Some \<lparr>year = 2024, month = 2, day = 1\<rparr>,
          Some \<lparr>year = 2024, month = 3, day = 31\<rparr>, Some \<lparr>year = 2024, month = 3, day = 15\<rparr>)"
  by code_simp

text \<open>
  Claim C9 (amended). Mapping the same dictionary at two clock readings gives the same
  outcome up to the field \<^verbatim>\<open>extracted_at\<close>: the second call fails exactly when the first
  does, and otherwise returns the first record with \<^verbatim>\<open>extracted_at\<close> set to the second
  reading. This holds for both mappers.
\<close>

theorem mapping_twice_differs_in_timestamp_only:
  "pipeline_map_to_scheme_header L t2 d
     = map_sum id (\<lambda>r. r\<lparr>extracted_at := t2\<rparr>) (pipeline_map_to_scheme_header L t1 d)
   \<and> modules_map_to_scheme_header L t2 d
     = map_sum id (\<lambda>r. r\<lparr>extracted_at := t2\<rparr>) (modules_map_to_scheme_header L t1 d)"
  by (simp add: pipeline_map_to_scheme_header_def modules_map_to_scheme_header_def
        SchemeHeader_init_clock [of L t2 _ t1] split: sum.splits)

text \<open>
  The claim as stated fails: the record is a function of the dictionary and of the clock,
  and the same dictionary mapped at two different readings gives two different records.
\<close>

theorem mapping_twice_counterexample:
  "pipeline_map_to_scheme_header no_conversions 1 [(''scheme_name'', PStr ''JBP Q1'')]
     \<noteq> pipeline_map_to_scheme_header no_conversions 2 [(''scheme_name'', PStr ''JBP Q1'')]"
  by code_simp

lemma validate_optional_not_None:
  assumes "v \<noteq> PNone" and "validate_optional f v = Some x"
  shows "x = f v \<and> x \<noteq> None"
proof (cases "f v")
  case None
  then show ?thesis using assms by (cases v) (simp_all add: validate_optional_def)
next
  case (Some a)
  then have "validate_optional f v = Some (Some a)"
    using assms(1) by (cases v) (simp_all add: validate_optional_def)
  with assms(2) Some show ?thesis by auto
qed

text \<open>
  The fallback tests truthiness: a zero under \<^verbatim>\<open>discount_value\<close> is passed over exactly as
  a missing key or a null is.
\<close>

lemma zero_is_treated_as_absent:
  assumes "dict_get d ''discount_value'' = PInt 0 \<or> dict_get d ''discount_value'' = PFloat 0
             \<or> dict_get d ''discount_value'' = PNone"
  shows "arg_discount_value (pipeline_args d dt) = dict_get d ''global_cap_amount''"
  using assms by (auto simp: pipeline_args_def py_or_def)

text \<open>
  Claim C10. In the mapper of \<^verbatim>\<open>DSPySchemeExtractor\<close>, for a dictionary whose
  \<^verbatim>\<open>global_cap_amount\<close> is not null and from which a record is produced: when
  \<^verbatim>\<open>discount_value\<close> is the integer or the float zero, the record's \<^verbatim>\<open>discount_value\<close> is
  the validated \<^verbatim>\<open>global_cap_amount\<close> (and not \<^verbatim>\<open>None\<close>); likewise for
  \<^verbatim>\<open>max_discount_cap\<close>; and when \<^verbatim>\<open>description\<close> is the empty string, the record's
  \<^verbatim>\<open>remarks\<close> is the validated value of the key \<^verbatim>\<open>remarks\<close>.
\<close>

theorem zero_falls_back_to_cap:
  assumes "pipeline_map_to_scheme_header L now d = Inr r"
    and "dict_get d ''global_cap_amount'' \<noteq> PNone"
  shows "(dict_get d ''discount_value'' = PInt 0 \<or> dict_get d ''discount_value'' = PFloat 0
            \<longrightarrow> discount_value r = validate_amount L (dict_get d ''global_cap_amount'')
                \<and> discount_value r \<noteq> None)
       \<and> (dict_get d ''max_discount_cap'' = PInt 0 \<or> dict_get d ''max_discount_cap'' = PFloat 0
            \<longrightarrow> max_discount_cap r = validate_amount L (dict_get d ''global_cap_amount'')
                \<and> max_discount_cap r \<noteq> None)
       \<and> (dict_get d ''description'' = PStr []
            \<longrightarrow> validate_optional validate_str (dict_get d ''remarks'') = Some (remarks r))"
proof -
  obtain dt where init: "SchemeHeader_init L now (pipeline_args d dt) = Inr r"
    using pipeline_map_InrD [OF assms(1)] by blast
  have dv: "validate_optional (validate_amount L)
              (py_or (dict_get d ''discount_value'') (dict_get d ''global_cap_amount''))
              = Some (discount_value r)"
    using SchemeHeader_init_InrD(10) [OF init] by (simp add: pipeline_args_def)
  have mc: "validate_optional (validate_amount L)
              (py_or (dict_get d ''max_discount_cap'') (dict_get d ''global_cap_amount''))
              = Some (max_discount_cap r)"
    using SchemeHeader_init_InrD(12) [OF init] by (simp add: pipeline_args_def)
  have rm: "validate_optional validate_str
              (py_or (dict_get d ''description'') (dict_get d ''remarks'')) = Some (remarks r)"
    using SchemeHeader_init_InrD(15) [OF init] by (simp add: pipeline_args_def)
  have opt: "\<And>x. validate_optional (validate_amount L) (dict_get d ''global_cap_amount'') = Some x
               \<Longrightarrow> x = validate_amount L (dict_get d ''global_cap_amount'') \<and> x \<noteq> None"
    using assms(2) by (rule validate_optional_not_None)
  have p1: "dict_get d ''discount_value'' = PInt 0 \<or> dict_get d ''discount_value'' = PFloat 0
            \<longrightarrow> discount_value r = validate_amount L (dict_get d ''global_cap_amount'')
                \<and> discount_value r \<noteq> None"
  proof
    assume "dict_get d ''discount_value'' = PInt 0 \<or> dict_get d ''discount_value'' = PFloat 0"
    then have "py_or (dict_get d ''discount_value'') (dict_get d ''global_cap_amount'')
                 = dict_get d ''global_cap_amount''"
      by (auto simp: py_or_def)
    with dv have "validate_optional (validate_amount L) (dict_get d ''global_cap_amount'')
                    = Some (discount_value r)"
      by simp
    then show "discount_value r = validate_amount L (dict_get d ''global_cap_amount'')
                \<and> discount_value r \<noteq> None"
      by (rule opt)
  qed
  have p2: "dict_get d ''max_discount_cap'' = PInt 0 \<or> dict_get d ''max_discount_cap'' = PFloat 0
            \<longrightarrow> max_discount_cap r = validate_amount L (dict_get d ''global_cap_amount'')
                \<and> max_discount_cap r \<noteq> None"
  proof
    assume "dict_get d ''max_discount_cap'' = PInt 0 \<or> dict_get d ''max_discount_cap'' = PFloat 0"
    then have "py_or (dict_get d ''max_discount_cap'') (dict_get d ''global_cap_amount'')
                 = dict_get d ''global_cap_amount''"
      by (auto simp: py_or_def)
    with mc have "validate_optional (validate_amount L) (dict_get d ''global_cap_amount'')
                    = Some (max_discount_cap r)"
      by simp
    then show "max_discount_cap r = validate_amount L (dict_get d ''global_cap_amount'')
                \<and> max_discount_cap r \<noteq> None"
      by (rule opt)
  qed
  have p3: "dict_get d ''description'' = PStr []
            \<longrightarrow> validate_optional validate_str (dict_get d ''remarks'') = Some (remarks r)"
    using rm by (auto simp: py_or_def)
  from p1 p2 p3 show ?thesis by blast
qed

theorem zero_falls_back_to_cap_witness:
  "\<exists>r. pipeline_map_to_scheme_header no_conversions 0
          [(''discount_value'', PInt 0), (''max_discount_cap'', PFloat 0),
           (''global_cap_amount'', PInt 50000), (''description'', PStr []),
           (''remarks'', PStr ''cap applies'')] = Inr r
     \<and> discount_value r = Some 50000 \<and> max_discount_cap r = Some 50000
     \<and> remarks r = Some ''cap applies''"
proof -
  let ?d = "[(''discount_value'', PInt 0), (''max_discount_cap'', PFloat 0),
           (''global_cap_amount'', PInt 50000), (''description'', PStr []),
           (''remarks'', PStr ''cap applies'')]"
  have "\<not> isl (pipeline_map_to_scheme_header no_conversions 0 ?d)"
    by code_simp
  then obtain r where r: "pipeline_map_to_scheme_header no_conversions 0 ?d = Inr r"
    by (cases "pipeline_map_to_scheme_header no_conversions 0 ?d") auto
  have cap: "dict_get ?d ''global_cap_amount'' \<noteq> PNone"
    by (simp add: dict_get_def)
  have "discount_value r = Some 50000 \<and> max_discount_cap r = Some 50000
          \<and> remarks r = Some ''cap applies''"
    using zero_falls_back_to_cap [OF r cap]
    by (simp add: dict_get_def validate_amount_def validate_float_def validate_optional_def
          validate_str_def)
  with r show ?thesis by blast
qed

subsection \<open>Defaults applied by the parser\<close>

lemma map_of_dict_setitem: "map_of (dict_setitem d k v) = (map_of d)(k \<mapsto> v)"
  by (induction d) auto

lemma set_default_dict:
  "set_default (PDict d) k dflt =
     Inr (PDict (if dict_contains d k then d else dict_setitem d k dflt))"
  by (simp add: set_default_def)

lemma dict_get_default_after_default:
  "dict_get_default (if dict_contains d k then d else dict_setitem d k dflt) k' fb =
     (if k' = k then (case map_of d k of Some v \<Rightarrow> v | None \<Rightarrow> dflt)
      else dict_get_default d k' fb)"
  by (auto simp: dict_get_default_def dict_contains_def map_of_dict_setitem split: option.splits)

lemma pipeline_scheme_dict:
  "pipeline_scheme L now dc de (PDict d) =
     pipeline_map_to_scheme_header L now
       (let d1 = (if dict_contains d ''confidence'' then d else dict_setitem d ''confidence'' dc)
        in if dict_contains d1 ''needs_escalation'' then d1
           else dict_setitem d1 ''needs_escalation'' de)"
  by (simp add: pipeline_scheme_def set_default_dict pipeline_map_value_def Let_def)

text \<open>
  Claim C6. For a scheme dictionary processed with the defaults that \<^verbatim>\<open>extract\<close> takes
  from the result dictionary, the record's \<^verbatim>\<open>confidence\<close> and \<^verbatim>\<open>needs_escalation\<close> are
  the validated values chosen by the stated precedence: the dictionary's own value when
  the key is present, else the result's \<^verbatim>\<open>confidence_score\<close> (resp.
  \<^verbatim>\<open>needs_escalation\<close>), else \<open>0.5\<close> (resp. \<^verbatim>\<open>False\<close>). In particular an explicit float
  or boolean in the dictionary is the record's value whatever the default is, and with
  both absent the record has \<open>0.5\<close> and \<^verbatim>\<open>False\<close>.
\<close>

theorem confidence_and_escalation_precedence:
  assumes "pipeline_scheme L now (dict_get_default result ''confidence_score'' (PFloat 0.5))
             (dict_get_default result ''needs_escalation'' (PBool False)) (PDict d) = Inr r"
  shows "validate_confidence L
           (effective_value d ''confidence'' result ''confidence_score'' (PFloat 0.5))
           = Some (confidence r)
       \<and> validate_bool L
           (effective_value d ''needs_escalation'' result ''needs_escalation'' (PBool False))
           = Some (needs_escalation r)
       \<and> (map_of d ''confidence'' = Some (PFloat c) \<longrightarrow> confidence r = c)
       \<and> (map_of d ''needs_escalation'' = Some (PBool b) \<longrightarrow> needs_escalation r = b)
       \<and> (map_of d ''confidence'' = None \<and> map_of result ''confidence_score'' = None
            \<longrightarrow> confidence r = 0.5)
       \<and> (map_of d ''needs_escalation'' = None \<and> map_of result ''needs_escalation'' = None
            \<longrightarrow> needs_escalation r = False)"
proof -
  let ?dc = "dict_get_default result ''confidence_score'' (PFloat 0.5)"
  let ?de = "dict_get_default result ''needs_escalation'' (PBool False)"
  let ?d1 = "if dict_contains d ''confidence'' then d else dict_setitem d ''confidence'' ?dc"
  let ?d2 = "if dict_contains ?d1 ''needs_escalation'' then ?d1
             else dict_setitem ?d1 ''needs_escalation'' ?de"
  have "pipeline_map_to_scheme_header L now ?d2 = Inr r"
    using assms unfolding pipeline_scheme_dict Let_def .
  then obtain dt where init: "SchemeHeader_init L now (pipeline_args ?d2 dt) = Inr r"
    using pipeline_map_InrD by blast
  have conf_arg: "arg_confidence (pipeline_args ?d2 dt)
                    = effective_value d ''confidence'' result ''confidence_score'' (PFloat 0.5)"
    by (simp only: pipeline_args_def SchemeHeader_args.simps dict_get_default_after_default)
       (simp add: effective_value_def dict_get_default_def split: option.splits)
  have esc_arg: "arg_needs_escalation (pipeline_args ?d2 dt)
                    = effective_value d ''needs_escalation'' result ''needs_escalation'' (PBool False)"
    by (simp only: pipeline_args_def SchemeHeader_args.simps dict_get_default_after_default)
       (simp add: effective_value_def dict_get_default_def dict_contains_def
          map_of_dict_setitem split: option.splits)
  have conf: "validate_confidence L
                (effective_value d ''confidence'' result ''confidence_score'' (PFloat 0.5))
                = Some (confidence r)"
    using SchemeHeader_init_InrD(16) [OF init] conf_arg by simp
  have esc: "validate_bool L
               (effective_value d ''needs_escalation'' result ''needs_escalation'' (PBool False))
               = Some (needs_escalation r)"
    using SchemeHeader_init_InrD(17) [OF init] esc_arg by simp
  have c1: "map_of d ''confidence'' = Some (PFloat c) \<longrightarrow> confidence r = c"
    using conf
    by (auto simp: effective_value_def validate_confidence_def validate_float_def
             split: option.splits if_splits)
  have c2: "map_of d ''needs_escalation'' = Some (PBool b) \<longrightarrow> needs_escalation r = b"
    using esc by (auto simp: effective_value_def validate_bool_def)
  have c3: "map_of d ''confidence'' = None \<and> map_of result ''confidence_score'' = None
              \<longrightarrow> confidence r = 0.5"
    using conf
    by (auto simp: effective_value_def validate_confidence_def validate_float_def
             split: option.splits if_splits)
  have c4: "map_of d ''needs_escalation'' = None \<and> map_of result ''needs_escalation'' = None
              \<longrightarrow> needs_escalation r = False"
    using esc by (auto simp: effective_value_def validate_bool_def)
  from conf esc c1 c2 c3 c4 show ?thesis by blast
qed

theorem confidence_and_escalation_precedence_witness:
  "\<exists>r. pipeline_scheme no_conversions 0
          (dict_get_default [(''confidence_score'', PFloat 0.8), (''needs_escalation'', PBool True)]
             ''confidence_score'' (PFloat 0.5))
          (dict_get_default [(''confidence_score'', PFloat 0.8), (''needs_escalation'', PBool True)]
             ''needs_escalation'' (PBool False))
          (PDict [(''scheme_name'', PStr ''JBP Q1''), (''confidence'', PFloat 0.3)]) = Inr r
     \<and> confidence r = 0.3 \<and> needs_escalation r = True"
proof -
  let ?result = "[(''confidence_score'', PFloat 0.8), (''needs_escalation'', PBool True)]"
  let ?d = "[(''scheme_name'', PStr ''JBP Q1''), (''confidence'', PFloat 0.3)]"
  let ?call = "pipeline_scheme no_conversions 0
          (dict_get_default ?result ''confidence_score'' (PFloat 0.5))
          (dict_get_default ?result ''needs_escalation'' (PBool False)) (PDict ?d)"
  have "\<not> isl ?call"
    by code_simp
  then obtain r where r: "?call = Inr r"
    by (cases ?call) auto
  have "confidence r = 0.3 \<and> needs_escalation r = True"
    using confidence_and_escalation_precedence [OF r, of "0.3" True]
    by (simp add: effective_value_def validate_bool_def)
  with r show ?thesis by blast
qed

subsection \<open>The output parser\<close>








lemma collect_schemes_member:
  assumes "collect_schemes body n xs = Inr ss" and "r \<in> set ss"
  shows "\<exists>k x. x \<in> set xs \<and> body k x = Inr r"
  using assms
proof (induction xs arbitrary: n ss)
  case Nil
  then show ?case by simp
next
  case (Cons x xs)
  show ?case
  proof (cases "body n x")
    case (Inl e)
    with Cons.prems(1) have "collect_schemes body (Suc n) xs = Inr ss"
      by (simp split: if_splits)
    from Cons.IH [OF this Cons.prems(2)] show ?thesis by auto
  next
    case (Inr r0)
    with Cons.prems(1) obtain rs where rs: "collect_schemes body (Suc n) xs = Inr rs"
      and ss: "ss = r0 # rs"
      by (auto split: sum.splits)
    show ?thesis
    proof (cases "r = r0")
      case True
      with Inr show ?thesis by auto
    next
      case False
      with ss Cons.prems(2) have "r \<in> set rs" by simp
      from Cons.IH [OF rs this] show ?thesis by auto
    qed
  qed
qed

lemma schemes_of_data_member:
  assumes "schemes_of_data body data = Inr ss" and "r \<in> set ss"
  shows "\<exists>k x. body k x = Inr r"
proof -
  from assms obtain xs where "collect_schemes body 0 xs = Inr ss"
    by (auto simp: schemes_of_data_def split: sum.splits if_splits)
  from collect_schemes_member [OF this assms(2)] show ?thesis by blast
qed

lemma parse_try_member:
  assumes "parse_try jl body resp = Inr ss" and "r \<in> set ss"
  shows "\<exists>k x. body k x = Inr r"
proof -
  from assms(1) obtain data where "schemes_of_data body data = Inr ss"
    by (auto simp: parse_try_def split: pyval.splits option.splits)
  from schemes_of_data_member [OF this assms(2)] show ?thesis .
qed

lemma schemes_of_data_no_key:
  assumes "no_schemes_key data"
  shows "schemes_of_data body data = Inr [] \<or> (\<exists>e. schemes_of_data body data = Inl e)"
  using assms
  by (cases data) (auto simp: no_schemes_key_def schemes_of_data_def)

lemma SchemeSubType_members:
  "length SchemeSubType = 10 \<and> distinct SchemeSubType \<and> ''OTHER'' \<in> set SchemeSubType"
  by (simp add: SchemeSubType_def)

lemma validate_enum_member: "validate_enum ms v = Some s \<Longrightarrow> s \<in> set ms"
  by (auto simp: validate_enum_def split: pyval.splits if_splits)

lemma pipeline_scheme_InrD:
  assumes "pipeline_scheme L now dc de x = Inr r"
  shows "\<exists>d. pipeline_map_to_scheme_header L now d = Inr r"
  using assms
  by (auto simp: pipeline_scheme_def pipeline_map_value_def split: sum.splits pyval.splits)

lemma modules_map_value_InrD:
  assumes "modules_map_value L now x = Inr r"
  shows "\<exists>d. modules_map_to_scheme_header L now d = Inr r"
  using assms by (auto simp: modules_map_value_def split: pyval.splits)

lemma SchemeHeader_init_sub_type:
  assumes "SchemeHeader_init L now a = Inr r"
  shows "scheme_sub_type r \<in> set SchemeSubType \<and> scheme_type r \<in> set SchemeType"
  using assms
  by (auto simp: SchemeHeader_init_def field_def split: option.splits dest: validate_enum_member)

text \<open>
  Claim C8. Every record in the list returned by either parser has a \<^verbatim>\<open>scheme_sub_type\<close>
  that is one of the values of the enumeration \<^verbatim>\<open>SchemeSubType\<close>, whatever the
  completion, the JSON parser and the defaults are.
\<close>

theorem emitted_sub_type_in_enumeration:
  "(parse_schemes_json json_loads L clock resp dc de = Inr ss \<and> r \<in> set ss
      \<longrightarrow> scheme_sub_type r \<in> set SchemeSubType)
   \<and> (parse_response json_loads L clock resp = Inr ss' \<and> r' \<in> set ss'
      \<longrightarrow> scheme_sub_type r' \<in> set SchemeSubType)"
proof (intro conjI impI)
  assume a: "parse_schemes_json json_loads L clock resp dc de = Inr ss \<and> r \<in> set ss"
  then have "parse_try json_loads (\<lambda>n. pipeline_scheme L (clock n) dc de) resp = Inr ss"
    by (auto simp: parse_schemes_json_def split: sum.splits)
  from parse_try_member [OF this] a obtain k x where "pipeline_scheme L (clock k) dc de x = Inr r"
    by blast
  then obtain d where "pipeline_map_to_scheme_header L (clock k) d = Inr r"
    using pipeline_scheme_InrD by blast
  then obtain dt where "SchemeHeader_init L (clock k) (pipeline_args d dt) = Inr r"
    using pipeline_map_InrD by blast
  then show "scheme_sub_type r \<in> set SchemeSubType"
    using SchemeHeader_init_sub_type by blast
next
  assume a: "parse_response json_loads L clock resp = Inr ss' \<and> r' \<in> set ss'"
  then have "parse_try json_loads (\<lambda>n. modules_map_value L (clock n)) resp = Inr ss'"
    by (auto simp: parse_response_def split: sum.splits)
  from parse_try_member [OF this] a obtain k x where "modules_map_value L (clock k) x = Inr r'"
    by blast
  then obtain d where "modules_map_to_scheme_header L (clock k) d = Inr r'"
    using modules_map_value_InrD by blast
  then obtain dt where "SchemeHeader_init L (clock k) (modules_args d dt) = Inr r'"
    using modules_map_InrD by blast
  then show "scheme_sub_type r' \<in> set SchemeSubType"
    using SchemeHeader_init_sub_type by blast
qed

theorem emitted_sub_type_in_enumeration_witness:
  \<open>(\<exists>r. parse_schemes_json
          (json_loads_at ''{"schemes": [{"scheme_sub_type": "PDC"}]}''
             (PDict [(''schemes'', PList [PDict [(''scheme_sub_type'', PStr ''PDC'')]])]))
          no_conversions (\<lambda>n. 0) (PStr ''{"schemes": [{"scheme_sub_type": "PDC"}]}'')
          (PFloat 0.5) (PBool False) = Inr [r]
        \<and> scheme_sub_type r \<in> set SchemeSubType)
   \<and> (\<exists>r. parse_response
          (json_loads_at ''{"schemes": [{"scheme_sub_type": "PDC"}]}''
             (PDict [(''schemes'', PList [PDict [(''scheme_sub_type'', PStr ''PDC'')]])]))
          no_conversions (\<lambda>n. 0) (PStr ''{"schemes": [{"scheme_sub_type": "PDC"}]}'') = Inr [r]
        \<and> scheme_sub_type r \<in> set SchemeSubType)\<close>
proof -
  let ?jl = \<open>json_loads_at ''{"schemes": [{"scheme_sub_type": "PDC"}]}''
             (PDict [(''schemes'', PList [PDict [(''scheme_sub_type'', PStr ''PDC'')]])])\<close>
  let ?resp = \<open>PStr ''{"schemes": [{"scheme_sub_type": "PDC"}]}''\<close>
  let ?p = "parse_schemes_json ?jl no_conversions (\<lambda>n. 0) ?resp (PFloat 0.5) (PBool False)"
  let ?q = "parse_response ?jl no_conversions (\<lambda>n. 0) ?resp"
  have "case ?p of Inr ss \<Rightarrow> length ss = 1 | Inl e \<Rightarrow> False"
    by code_simp
  then obtain r where r: "?p = Inr [r]"
    by (cases ?p) (auto simp: length_Suc_conv)
  have "case ?q of Inr ss \<Rightarrow> length ss = 1 | Inl e \<Rightarrow> False"
    by code_simp
  then obtain r' where r': "?q = Inr [r']"
    by (cases ?q) (auto simp: length_Suc_conv)
  have "scheme_sub_type r \<in> set SchemeSubType"
    using emitted_sub_type_in_enumeration
            [of ?jl no_conversions "\<lambda>n. 0" ?resp "PFloat 0.5" "PBool False" "[r]" r] r
    by simp
  moreover have "scheme_sub_type r' \<in> set SchemeSubType"
    using emitted_sub_type_in_enumeration
            [of ?jl no_conversions "\<lambda>n. 0" ?resp _ _ _ _ "[r']" r'] r'
    by simp
  ultimately show ?thesis using r r' by blast
qed

text \<open>
  A raw value in another casing is no member of the enumeration: the entry fails
  validation, whatever the conversion rules are, and the loop drops it.
\<close>

lemma lower_case_sub_type_rejected:
  "pipeline_map_to_scheme_header L now [(''scheme_sub_type'', PStr ''pdc'')] = Inl ValidationError"
  by (simp add: pipeline_map_to_scheme_header_def map_discount_type_def dict_get_def
        dict_get_default_def pipeline_args_def SchemeHeader_init_def field_def validate_enum_def
        SchemeType_def SchemeSubType_def)

text \<open>
  Claim C4. Neither parser raises: each call returns a list. When the cleaned completion
  is not valid JSON the list is empty, and when it is JSON without a top-level
  \<^verbatim>\<open>schemes\<close> key the list is empty.
\<close>

theorem parser_never_raises:
  "(\<exists>ss. parse_schemes_json json_loads L clock resp dc de = Inr ss)
   \<and> (\<exists>ss. parse_response json_loads L clock resp = Inr ss)
   \<and> (json_loads (clean_json s) = None
        \<longrightarrow> parse_schemes_json json_loads L clock (PStr s) dc de = Inr []
          \<and> parse_response json_loads L clock (PStr s) = Inr [])
   \<and> (json_loads (clean_json s') = Some data \<and> no_schemes_key data
        \<longrightarrow> parse_schemes_json json_loads L clock (PStr s') dc de = Inr []
          \<and> parse_response json_loads L clock (PStr s') = Inr [])"
proof (intro conjI impI)
  show "\<exists>ss. parse_schemes_json json_loads L clock resp dc de = Inr ss"
    by (simp add: parse_schemes_json_def split: sum.splits)
  show "\<exists>ss. parse_response json_loads L clock resp = Inr ss"
    by (simp add: parse_response_def split: sum.splits)
next
  assume "json_loads (clean_json s) = None"
  then show "parse_schemes_json json_loads L clock (PStr s) dc de = Inr []"
    and "parse_response json_loads L clock (PStr s) = Inr []"
    by (simp_all add: parse_schemes_json_def parse_response_def parse_try_def)
next
  assume a: "json_loads (clean_json s') = Some data \<and> no_schemes_key data"
  show "parse_schemes_json json_loads L clock (PStr s') dc de = Inr []"
    using a schemes_of_data_no_key [of data "\<lambda>n. pipeline_scheme L (clock n) dc de"]
    by (auto simp: parse_schemes_json_def parse_try_def)
  show "parse_response json_loads L clock (PStr s') = Inr []"
    using a schemes_of_data_no_key [of data "\<lambda>n. modules_map_value L (clock n)"]
    by (auto simp: parse_response_def parse_try_def)
qed

theorem parser_never_raises_witness:
  "parse_schemes_json (json_loads_at ''{}'' (PDict [])) no_conversions (\<lambda>n. 0)
      (PStr ''not json at all'') (PFloat 0.5) (PBool False) = Inr []
   \<and> parse_response (json_loads_at ''{}'' (PDict [])) no_conversions (\<lambda>n. 0)
      (PStr ''not json at all'') = Inr []
   \<and> parse_schemes_json (json_loads_at ''{}'' (PDict [])) no_conversions (\<lambda>n. 0)
      (PStr ''```json {} ```'') (PFloat 0.5) (PBool False) = Inr []
   \<and> parse_response (json_loads_at ''{}'' (PDict [])) no_conversions (\<lambda>n. 0)
      (PStr ''```json {} ```'') = Inr []"
proof -
  let ?jl = "json_loads_at ''{}'' (PDict [])"
  have bad: "?jl (clean_json ''not json at all'') = None"
    by code_simp
  have good: "?jl (clean_json ''```json {} ```'') = Some (PDict []) \<and> no_schemes_key (PDict [])"
    by code_simp
  from parser_never_raises
         [of ?jl no_conversions "\<lambda>n. 0" PNone "PFloat 0.5" "PBool False"
             "''not json at all''" "''```json {} ```''" "PDict []"]
       bad good
  show ?thesis by blast
qed




subsection \<open>The extraction attempt\<close>

text \<open>
  \<^verbatim>\<open>extract\<close> never raises, and when its \<^verbatim>\<open>try\<close> block raises, the response it
  returns has no scheme, so both derived properties take their values for the empty
  list: \<^verbatim>\<open>needs_escalation\<close> is \<^verbatim>\<open>False\<close> and \<^verbatim>\<open>average_confidence\<close> is \<open>0\<close>.
\<close>

lemma extract_never_raises: "\<exists>response. extractor_extract env call = Inr response"
  by (simp add: extractor_extract_def split: sum.splits)

lemma extract_handler:
  assumes "extract_try env call = Inl e"
  shows "extractor_extract env call = Inr (extract_failed env e)"
    and "schemes (extract_failed env e) = []"
    and "LLMResponse_needs_escalation (extract_failed env e) = False"
    and "LLMResponse_average_confidence (extract_failed env e) = 0"
  using assms
  by (simp_all add: extractor_extract_def extract_failed_def LLMResponse_needs_escalation_def
        LLMResponse_average_confidence_def)

lemma forward_failure_signals_escalation:
  "dict_get (forward (Raised msg steps)) ''needs_escalation'' = PBool True
   \<and> dict_get (forward (Raised msg steps)) ''confidence_score'' = PFloat 0"
  by (simp add: forward_def dict_get_def)

text \<open>
  Claim C3. The claim asks that a failed attempt returns zero schemes with
  \<^verbatim>\<open>needs_escalation\<close> true. In the run below the language model times out inside
  \<^verbatim>\<open>forward\<close>, which returns its terminal dictionary with \<^verbatim>\<open>needs_escalation = True\<close> and
  \<^verbatim>\<open>confidence_score = 0.0\<close>; \<^verbatim>\<open>extract\<close> passes the flag to the parser as the default
  of schemes that do not exist, and returns a response with no scheme, whose
  \<^verbatim>\<open>needs_escalation\<close> is \<^verbatim>\<open>False\<close> and whose \<^verbatim>\<open>average_confidence\<close> is \<open>0\<close>.
\<close>

theorem failed_attempt_not_escalated:
  \<open>map_sum id (\<lambda>r. (schemes r, LLMResponse_needs_escalation r, LLMResponse_average_confidence r))
     (extractor_extract
        \<lparr>env_json_loads = json_loads_at ''{"schemes": []}'' (PDict [(''schemes'', PList [])]),
         env_lax = no_conversions, env_clock = (\<lambda>n. 0),
         env_model_name = ''qwen/qwen3-next-80b-a3b-instruct'',
         env_total_tokens = Inr (Some 0), env_str = (\<lambda>e. ''timeout'')\<rparr>
        (Inr (forward (Raised ''timeout'' []))))
   = Inr ([], False, 0)\<close>
  by code_simp

text \<open>The same when the call of the module itself raises and the handler answers.\<close>

lemma failed_call_not_escalated:
  \<open>map_sum id (\<lambda>r. (schemes r, LLMResponse_needs_escalation r, LLMResponse_average_confidence r))
     (extractor_extract
        \<lparr>env_json_loads = json_loads_at ''{"schemes": []}'' (PDict [(''schemes'', PList [])]),
         env_lax = no_conversions, env_clock = (\<lambda>n. 0),
         env_model_name = ''qwen/qwen3-next-80b-a3b-instruct'',
         env_total_tokens = Inr (Some 0), env_str = (\<lambda>e. ''timeout'')\<rparr>
        (Inl (Exception ''timeout'')))
   = Inr ([], False, 0)\<close>
  by code_simp

end
